theory Spec2Isabelle
  imports Main "HOL-Library.Sublist"
begin

section \<open>The webpack configuration factory of my-react\<close>

text \<open>
  The repository's build configuration is one JavaScript module: a handful of
  module-level constants read from the process environment and the file system, and
  an exported function \<open>webpackEnv \<mapsto> configuration object\<close>. This theory embeds the
  parts of that module that decide which loaders, optimisation settings and plugins the
  returned object holds, and in which order.

  Everything the module reads from outside itself is gathered in the record \<open>host\<close>:
  environment variables (absent = \<open>None\<close>), the command line, the answers of the two
  \<open>fs.existsSync\<close> calls, and the fields of \<open>./paths\<close> and \<open>./env\<close> that the
  module uses. The module names of every \<open>require\<close>, \<open>require.resolve\<close> and
  \<open>resolve.sync\<close> call are taken to be installed (node throws while loading or calling
  the module otherwise); the one lookup the source itself guards with \<open>try/catch\<close>, the
  new JSX runtime, is a field of \<open>host\<close>.
\<close>

subsection \<open>What the module reads from its surroundings\<close>

record host =
  GENERATE_SOURCEMAP :: "string option"         \<comment> \<open>\<open>process.env.GENERATE_SOURCEMAP\<close>\<close>
  INLINE_RUNTIME_CHUNK :: "string option"       \<comment> \<open>\<open>process.env.INLINE_RUNTIME_CHUNK\<close>\<close>
  IMAGE_INLINE_SIZE_LIMIT :: "nat list option"  \<comment> \<open>\<open>process.env.IMAGE_INLINE_SIZE_LIMIT\<close>, as UTF-16 code units\<close>
  DISABLE_NEW_JSX_TRANSFORM :: "string option"  \<comment> \<open>\<open>process.env.DISABLE_NEW_JSX_TRANSFORM\<close>\<close>
  argv :: "string list"                         \<comment> \<open>\<open>process.argv\<close>\<close>
  versions_pnp :: bool                          \<comment> \<open>truthiness of \<open>process.versions.pnp\<close>\<close>
  FAST_REFRESH :: bool                          \<comment> \<open>truthiness of \<open>env.raw.FAST_REFRESH\<close>\<close>
  jsx_runtime_resolves :: bool                  \<comment> \<open>\<open>require.resolve('react/jsx-runtime')\<close> does not throw\<close>
  appTsConfig_exists :: bool                    \<comment> \<open>\<open>fs.existsSync(paths.appTsConfig)\<close>\<close>
  swSrc_exists :: bool                          \<comment> \<open>\<open>fs.existsSync(swSrc)\<close>\<close>
  publicUrlOrPath :: string                     \<comment> \<open>\<open>paths.publicUrlOrPath\<close>\<close>
  appSrc :: string
  appIndexJs :: string
  appBuild :: string
  appHtml :: string
  appPath :: string
  appNodeModules :: string
  appTsConfig :: string
  swSrc :: string
  dirname :: string                             \<comment> \<open>\<open>__dirname\<close> of the module\<close>

text \<open>A file name: the result of \<open>require.resolve(request)\<close>, a path taken from
  \<open>./paths\<close>, or the loader path exported by the CSS extraction plugin.\<close>

datatype file_ref =
    RequireResolve string
  | FsPath string
  | MiniCssExtractPlugin_loader

subsection \<open>JavaScript idioms\<close>

text \<open>\<open>cond && value\<close> where \<open>value\<close> is an object or a non-empty string: the
  value when the condition holds, \<open>false\<close> (here \<open>None\<close>) otherwise.\<close>

definition js_and :: "bool \<Rightarrow> 'a \<Rightarrow> 'a option" where
  "js_and c v = (if c then Some v else None)"

text \<open>\<open>array.filter(Boolean)\<close> on such entries drops the \<open>false\<close> ones and keeps the
  others in their order.\<close>

fun filter_Boolean :: "'a option list \<Rightarrow> 'a list" where
  "filter_Boolean [] = []"
| "filter_Boolean (None # xs) = filter_Boolean xs"
| "filter_Boolean (Some x # xs) = x # filter_Boolean xs"

subsection \<open>The built-in \<open>parseInt\<close>\<close>

text \<open>
  \<open>parseInt\<close> looks at the characters of its argument, so the argument is a
  JavaScript string as it is: a sequence of UTF-16 code units, each a number below
  \<open>65536\<close>. \<open>code_units\<close> gives the code units of an ASCII literal.

  \<open>parseInt(string)\<close> with no radix, after ECMAScript: leading white space is
  skipped, one sign is read, a \<open>0x\<close>/\<open>0X\<close> prefix selects radix 16 (radix 10
  otherwise), and the longest run of digits of that radix is the value; with no digit
  the result is \<open>NaN\<close>. White space is the language's \<open>WhiteSpace\<close> and
  \<open>LineTerminator\<close>: tab, line feed, vertical tab, form feed, carriage return,
  space, no-break space, the other space separators of Unicode (\<open>U+1680\<close>,
  \<open>U+2000\<close> to \<open>U+200A\<close>, \<open>U+202F\<close>, \<open>U+205F\<close>, \<open>U+3000\<close>), the line and
  paragraph separators and the byte-order mark.

  The result is a Number, an IEEE 754 double: the integer read is rounded to 53
  significant bits, to nearest with ties to even, and is infinite from \<open>2^1024\<close> on;
  a zero read after a minus sign is \<open>-0\<close>. The value rounded is the exact value of
  the digits, as the engine of node computes it.
\<close>

type_synonym js_string = "nat list"

definition code_units :: "string \<Rightarrow> js_string" where
  "code_units s = map of_char s"

datatype js_number = NaN | Num int | NegZero | Infinity | NegInfinity

definition isWhiteSpace :: "nat \<Rightarrow> bool" where
  "isWhiteSpace c =
     (c \<in> set [0x09, 0x0A, 0x0B, 0x0C, 0x0D, 0x20, 0xA0, 0x1680,
                0x2028, 0x2029, 0x202F, 0x205F, 0x3000, 0xFEFF]
      \<or> (0x2000 \<le> c \<and> c \<le> 0x200A))"

definition digit_value :: "nat \<Rightarrow> nat option" where
  "digit_value c =
     (if 48 \<le> c \<and> c \<le> 57 then Some (c - 48)
      else if 97 \<le> c \<and> c \<le> 102 then Some (c - 87)
      else if 65 \<le> c \<and> c \<le> 70 then Some (c - 55)
      else None)"

definition digit_in_radix :: "nat \<Rightarrow> nat \<Rightarrow> nat option" where
  "digit_in_radix R c =
     (case digit_value c of
        None \<Rightarrow> None
      | Some d \<Rightarrow> if d < R then Some d else None)"

fun leading_digits :: "nat \<Rightarrow> js_string \<Rightarrow> nat list" where
  "leading_digits R [] = []"
| "leading_digits R (c # cs) =
     (case digit_in_radix R c of
        None \<Rightarrow> []
      | Some d \<Rightarrow> d # leading_digits R cs)"

definition digits_value :: "nat \<Rightarrow> nat list \<Rightarrow> nat" where
  "digits_value R ds = foldl (\<lambda>acc d. acc * R + d) 0 ds"

text \<open>The sign read (\<open>True\<close> for a minus sign) and the rest of the string.\<close>

fun strip_sign :: "js_string \<Rightarrow> bool \<times> js_string" where
  "strip_sign [] = (False, [])"
| "strip_sign (c # cs) =
     (if c = 0x2D then (True, cs)
      else if c = 0x2B then (False, cs)
      else (False, c # cs))"

text \<open>The number of bits of a natural number, and the double nearest to a positive
  integer: \<open>None\<close> when it is infinite.\<close>

fun bitlen :: "nat \<Rightarrow> nat" where
  "bitlen n = (if n = 0 then 0 else Suc (bitlen (n div 2)))"

declare bitlen.simps [simp del]

definition round_double :: "nat \<Rightarrow> nat option" where
  "round_double m =
     (if m < 2 ^ 53 then Some m
      else
        let e = bitlen m - 53;
            q = m div 2 ^ e;
            r = m mod 2 ^ e;
            half = 2 ^ (e - 1);
            q' = (if half < r \<or> (r = half \<and> odd q) then q + 1 else q);
            v = q' * 2 ^ e
        in if 2 ^ 1024 \<le> v then None else Some v)"

definition parseInt :: "js_string \<Rightarrow> js_number" where
  "parseInt inputString =
     (let (negative, S) = strip_sign (dropWhile isWhiteSpace inputString);
          hex = (prefix [0x30, 0x78] S \<or> prefix [0x30, 0x58] S);
          R = (if hex then 16 else 10);
          Z = leading_digits R (if hex then drop 2 S else S)
      in if Z = [] then NaN
         else
           let mathInt = digits_value R Z
           in if mathInt = 0 then (if negative then NegZero else Num 0)
              else case round_double mathInt of
                     None \<Rightarrow> if negative then NegInfinity else Infinity
                   | Some v \<Rightarrow> Num (if negative then - int v else int v))"

text \<open>Whether a string, white space and sign already removed, starts with an
  integer literal that \<open>parseInt\<close> reads: a decimal digit, or \<open>0x\<close>/\<open>0X\<close> and a
  hexadecimal digit.\<close>

fun starts_integer :: "js_string \<Rightarrow> bool" where
  "starts_integer [] = False"
| "starts_integer [c] = (digit_in_radix 10 c \<noteq> None)"
| "starts_integer (c # x # cs) =
     (if c = 0x30 \<and> (x = 0x78 \<or> x = 0x58)
      then (case cs of [] \<Rightarrow> False | d # _ \<Rightarrow> digit_in_radix 16 d \<noteq> None)
      else digit_in_radix 10 c \<noteq> None)"

subsection \<open>Module-level switches\<close>

text \<open>\<open>parseInt(process.env.IMAGE_INLINE_SIZE_LIMIT || '10000')\<close>: the default
  replaces an absent variable and an empty one, the two falsy cases.\<close>

definition imageInlineSizeLimit :: "host \<Rightarrow> js_number" where
  "imageInlineSizeLimit h =
     parseInt (case IMAGE_INLINE_SIZE_LIMIT h of
                 None \<Rightarrow> code_units ''10000''
               | Some s \<Rightarrow> if s = [] then code_units ''10000'' else s)"

definition shouldUseSourceMap :: "host \<Rightarrow> bool" where
  "shouldUseSourceMap h = (GENERATE_SOURCEMAP h \<noteq> Some ''false'')"

definition shouldInlineRuntimeChunk :: "host \<Rightarrow> bool" where
  "shouldInlineRuntimeChunk h = (INLINE_RUNTIME_CHUNK h \<noteq> Some ''false'')"

definition useTypeScript :: "host \<Rightarrow> bool" where
  "useTypeScript h = appTsConfig_exists h"

definition hasJsxRuntime :: "host \<Rightarrow> bool" where
  "hasJsxRuntime h =
     (if DISABLE_NEW_JSX_TRANSFORM h = Some ''true'' then False
      else jsx_runtime_resolves h)"

definition webpackDevClientEntry :: file_ref where
  "webpackDevClientEntry = RequireResolve ''react-dev-utils/webpackHotDevClient''"

definition reactRefreshOverlayEntry :: file_ref where
  "reactRefreshOverlayEntry = RequireResolve ''react-dev-utils/refreshOverlayInterop''"

subsection \<open>Switches of one call\<close>

definition isEnvDevelopment :: "string \<Rightarrow> bool" where
  "isEnvDevelopment webpackEnv = (webpackEnv = ''development'')"

definition isEnvProduction :: "string \<Rightarrow> bool" where
  "isEnvProduction webpackEnv = (webpackEnv = ''production'')"

definition isEnvProductionProfile :: "host \<Rightarrow> string \<Rightarrow> bool" where
  "isEnvProductionProfile h webpackEnv =
     (isEnvProduction webpackEnv \<and> ''--profile'' \<in> set (argv h))"

definition shouldUseReactRefresh :: "host \<Rightarrow> bool" where
  "shouldUseReactRefresh h = FAST_REFRESH h"

text \<open>The expression \<open>isEnvProduction ? shouldUseSourceMap : isEnvDevelopment\<close>, which
  the source writes out at each of its uses.\<close>

definition sourceMap_by_mode :: "host \<Rightarrow> string \<Rightarrow> bool" where
  "sourceMap_by_mode h webpackEnv =
     (if isEnvProduction webpackEnv then shouldUseSourceMap h
      else isEnvDevelopment webpackEnv)"

subsection \<open>Style loaders\<close>

datatype ident_fn = getCSSModuleLocalIdent

record css_modules =
  getLocalIdent :: ident_fn

record css_options =
  importLoaders :: int
  sourceMap :: bool
  modules :: "css_modules option"

datatype postcss_plugin =
    postcss_flexbugs_fixes
  | postcss_preset_env string nat   \<comment> \<open>\<open>autoprefixer.flexbox\<close>, \<open>stage\<close>\<close>
  | postcssNormalize

record url_loader_options =
  url_limit :: js_number
  url_mimetype :: "string option"
  url_name :: string

record babel_app_options =
  app_customize :: file_ref
  app_preset :: file_ref
  app_runtime :: string
  app_plugins :: "file_ref list"
  app_cacheDirectory :: bool
  app_cacheCompression :: bool
  app_compact :: bool

record babel_dep_options =
  dep_babelrc :: bool
  dep_configFile :: bool
  dep_compact :: bool
  dep_preset :: file_ref
  dep_helpers :: bool
  dep_cacheDirectory :: bool
  dep_cacheCompression :: bool
  dep_sourceMaps :: bool
  dep_inputSourceMap :: bool

text \<open>The \<open>options\<close> object of a loader entry, one constructor for each shape the
  module writes.\<close>

datatype loader_options =
    ExtractOptions "string option"                  \<comment> \<open>\<open>publicPath\<close>, absent in \<open>{}\<close>\<close>
  | CssOptions css_options                          \<comment> \<open>the caller's \<open>cssOptions\<close>, as given\<close>
  | PostcssOptions string "postcss_plugin list" bool  \<comment> \<open>\<open>ident\<close>, \<open>plugins()\<close>, \<open>sourceMap\<close>\<close>
  | ResolveUrlOptions bool string                   \<comment> \<open>\<open>sourceMap\<close>, \<open>root\<close>\<close>
  | PreProcessorOptions bool                        \<comment> \<open>\<open>sourceMap\<close>\<close>
  | UrlLoaderOptions url_loader_options
  | BabelAppOptions babel_app_options
  | BabelDepOptions babel_dep_options
  | FileLoaderOptions string                        \<comment> \<open>\<open>name\<close>\<close>

text \<open>An entry of a loader chain: a bare file name, or \<open>{loader, options}\<close>.\<close>

datatype use_item =
    UseString file_ref
  | UseObject file_ref loader_options

fun loader_of :: "use_item \<Rightarrow> file_ref" where
  "loader_of (UseString f) = f"
| "loader_of (UseObject f _) = f"

fun options_sourceMap :: "use_item \<Rightarrow> bool option" where
  "options_sourceMap (UseObject _ (CssOptions c)) = Some (sourceMap c)"
| "options_sourceMap (UseObject _ (PostcssOptions _ _ b)) = Some b"
| "options_sourceMap (UseObject _ (ResolveUrlOptions b _)) = Some b"
| "options_sourceMap (UseObject _ (PreProcessorOptions b)) = Some b"
| "options_sourceMap _ = None"

definition postcss_plugins :: "postcss_plugin list" where
  "postcss_plugins =
     [postcss_flexbugs_fixes, postcss_preset_env ''no-2009'' 3, postcssNormalize]"

text \<open>\<open>getStyleLoaders(cssOptions, preProcessor)\<close>. The second argument is
  \<open>None\<close> when the caller omits it; \<open>if (preProcessor)\<close> is false for an omitted
  argument and for the empty string.\<close>

definition getStyleLoaders ::
  "host \<Rightarrow> string \<Rightarrow> css_options \<Rightarrow> string option \<Rightarrow> use_item list" where
  "getStyleLoaders h webpackEnv cssOptions preProcessor =
     (let loaders = filter_Boolean
        [ js_and (isEnvDevelopment webpackEnv) (UseString (RequireResolve ''style-loader'')),
          js_and (isEnvProduction webpackEnv)
            (UseObject MiniCssExtractPlugin_loader
               (ExtractOptions
                  (if prefix ''.'' (publicUrlOrPath h) then Some ''../../'' else None))),
          Some (UseObject (RequireResolve ''css-loader'') (CssOptions cssOptions)),
          Some (UseObject (RequireResolve ''postcss-loader'')
                  (PostcssOptions ''postcss'' postcss_plugins
                     (sourceMap_by_mode h webpackEnv))) ]
      in case preProcessor of
           None \<Rightarrow> loaders
         | Some p \<Rightarrow>
             if p = [] then loaders
             else loaders @
               [ UseObject (RequireResolve ''resolve-url-loader'')
                   (ResolveUrlOptions (sourceMap_by_mode h webpackEnv) (appSrc h)),
                 UseObject (RequireResolve p) (PreProcessorOptions True) ])"

subsection \<open>Entry points\<close>

text \<open>The \<open>entry\<close> field is an array in one branch of the conditional and a bare
  string in the other.\<close>

datatype entry_value =
    EntryArray "file_ref list"
  | EntryString file_ref

definition entry :: "host \<Rightarrow> string \<Rightarrow> entry_value" where
  "entry h webpackEnv =
     (if isEnvDevelopment webpackEnv \<and> \<not> shouldUseReactRefresh h
      then EntryArray [webpackDevClientEntry, FsPath (appIndexJs h)]
      else EntryString (FsPath (appIndexJs h)))"

subsection \<open>Optimisation settings\<close>

record terser_options =
  parse_ecma :: nat
  compress_ecma :: nat
  compress_warnings :: bool
  compress_comparisons :: bool
  compress_inline :: nat
  mangle_safari10 :: bool
  keep_classnames :: bool
  keep_fnames :: bool
  output_ecma :: nat
  output_comments :: bool
  output_ascii_only :: bool

record css_map_options =
  map_inline :: bool
  map_annotation :: bool

datatype minimizer_plugin =
    TerserPlugin terser_options bool
      \<comment> \<open>\<open>terserOptions\<close>, \<open>sourceMap\<close>\<close>
  | OptimizeCSSAssetsPlugin string "css_map_options option" string bool
      \<comment> \<open>\<open>parser\<close>, \<open>map\<close> (\<open>None\<close> for \<open>false\<close>), preset name,
          \<open>minifyFontValues.removeQuotes\<close>\<close>

record split_chunks =
  chunks :: string
  chunks_name :: "string option"    \<comment> \<open>\<open>name: false\<close> is \<open>None\<close>\<close>

text \<open>
  The \<open>optimization\<close> object. Its keys are kept in the order in which the object
  literal writes them, one constructor for each key.
\<close>

datatype optimization_setting =
    minimize bool
  | minimizer "minimizer_plugin list"
  | splitChunks split_chunks
  | runtimeChunk "string \<Rightarrow> string"   \<comment> \<open>\<open>runtimeChunk.name\<close>, applied to \<open>entrypoint.name\<close>\<close>

fun setting_key :: "optimization_setting \<Rightarrow> string" where
  "setting_key (minimize _) = ''minimize''"
| "setting_key (minimizer _) = ''minimizer''"
| "setting_key (splitChunks _) = ''splitChunks''"
| "setting_key (runtimeChunk _) = ''runtimeChunk''"

fun minimizer_class :: "minimizer_plugin \<Rightarrow> string" where
  "minimizer_class (TerserPlugin _ _) = ''TerserPlugin''"
| "minimizer_class (OptimizeCSSAssetsPlugin _ _ _ _) = ''OptimizeCSSAssetsPlugin''"

definition runtime_name :: "string \<Rightarrow> string" where
  "runtime_name entrypoint_name = ''runtime-'' @ entrypoint_name"

definition optimization :: "host \<Rightarrow> string \<Rightarrow> optimization_setting list" where
  "optimization h webpackEnv =
     [ minimize (isEnvProduction webpackEnv),
       minimizer
         [ TerserPlugin
             \<lparr> parse_ecma = 8,
               compress_ecma = 5,
               compress_warnings = False,
               compress_comparisons = False,
               compress_inline = 2,
               mangle_safari10 = True,
               keep_classnames = isEnvProductionProfile h webpackEnv,
               keep_fnames = isEnvProductionProfile h webpackEnv,
               output_ecma = 5,
               output_comments = False,
               output_ascii_only = True \<rparr>
             (shouldUseSourceMap h),
           OptimizeCSSAssetsPlugin ''postcss-safe-parser''
             (if shouldUseSourceMap h
              then Some \<lparr> map_inline = False, map_annotation = True \<rparr>
              else None)
             ''default'' False ],
       splitChunks \<lparr> chunks = ''all'', chunks_name = None \<rparr>,
       runtimeChunk runtime_name ]"

subsection \<open>Module rules\<close>

text \<open>
  The regular expressions of the module have two shapes. Most are alternatives of
  literal text anchored at the end of the input, such as the one for the \<open>scss\<close> and
  \<open>sass\<close> extensions (there is no \<open>m\<close> flag, so \<open>$\<close> is the end of the string);
  \<open>jpe?g\<close> is the two alternatives \<open>jpg\<close> and \<open>jpeg\<close>. One, the pattern for
  the Babel runtime, is unanchored: \<open>@babel\<close>, then a slash or one or two
  backslashes, then \<open>runtime\<close>, found anywhere in the input.
  \<open>regexp_test\<close> is \<open>RegExp.prototype.test\<close> on them.
\<close>

datatype regexp =
    EndsWith "string list"
  | Contains "string list"

fun regexp_test :: "regexp \<Rightarrow> string \<Rightarrow> bool" where
  "regexp_test (EndsWith alts) s = list_ex (\<lambda>a. suffix a s) alts"
| "regexp_test (Contains alts) s = list_ex (\<lambda>a. sublist a s) alts"

definition cssRegex :: regexp where
  "cssRegex = EndsWith [''.css'']"

definition cssModuleRegex :: regexp where
  "cssModuleRegex = EndsWith [''.module.css'']"

definition sassRegex :: regexp where
  "sassRegex = EndsWith [''.scss'', ''.sass'']"

definition sassModuleRegex :: regexp where
  "sassModuleRegex = EndsWith [''.module.scss'', ''.module.sass'']"

text \<open>
  A rule condition as the bundler normalises it: a regular expression is tested on the
  resource path, a string matches the paths that start with it, and an array matches
  when one of its members does.
\<close>

datatype condition =
    Re regexp
  | Str string
  | Arr "condition list"

fun condition_matches :: "condition \<Rightarrow> string \<Rightarrow> bool" where
  "condition_matches (Re r) p = regexp_test r p"
| "condition_matches (Str s) p = prefix s p"
| "condition_matches (Arr cs) p = list_ex (\<lambda>c. condition_matches c p) cs"

datatype rule_loaders =
    Loader file_ref loader_options    \<comment> \<open>\<open>loader\<close> with \<open>options\<close>\<close>
  | Use "use_item list"               \<comment> \<open>\<open>use\<close>\<close>

record rule =
  rule_test :: "condition option"
  rule_include :: "condition option"
  rule_exclude :: "condition option"
  rule_loaders :: rule_loaders
  rule_sideEffects :: "bool option"

text \<open>A rule applies to a resource when \<open>test\<close> and \<open>include\<close> match and
  \<open>exclude\<close> does not; a missing condition does not restrict ("a missing \<open>test\<close> is
  equivalent to a match").\<close>

definition rule_matches :: "rule \<Rightarrow> string \<Rightarrow> bool" where
  "rule_matches r p =
     ((case rule_test r of None \<Rightarrow> True | Some c \<Rightarrow> condition_matches c p) \<and>
      (case rule_include r of None \<Rightarrow> True | Some c \<Rightarrow> condition_matches c p) \<and>
      (case rule_exclude r of None \<Rightarrow> True | Some c \<Rightarrow> \<not> condition_matches c p))"

text \<open>\<open>oneOf\<close>: the rules are tried in their order and the first that applies is
  used; none is used when none applies.\<close>

definition oneOf_select :: "rule list \<Rightarrow> string \<Rightarrow> rule option" where
  "oneOf_select rules p = find (\<lambda>r. rule_matches r p) rules"

definition script_extensions :: regexp where
  "script_extensions = EndsWith [''.js'', ''.mjs'', ''.jsx'', ''.ts'', ''.tsx'']"

definition media_name :: string where
  "media_name = ''static/media/[name].[hash:8].[ext]''"

definition rule_avif :: "host \<Rightarrow> rule" where
  "rule_avif h =
     \<lparr> rule_test = Some (Arr [Re (EndsWith [''.avif''])]),
       rule_include = None,
       rule_exclude = None,
       rule_loaders = Loader (RequireResolve ''url-loader'')
         (UrlLoaderOptions
            \<lparr> url_limit = imageInlineSizeLimit h,
              url_mimetype = Some ''image/avif'',
              url_name = media_name \<rparr>),
       rule_sideEffects = None \<rparr>"

definition rule_images :: "host \<Rightarrow> rule" where
  "rule_images h =
     \<lparr> rule_test = Some (Arr [Re (EndsWith [''.bmp'']), Re (EndsWith [''.gif'']),
                             Re (EndsWith [''.jpg'', ''.jpeg'']), Re (EndsWith [''.png''])]),
       rule_include = None,
       rule_exclude = None,
       rule_loaders = Loader (RequireResolve ''url-loader'')
         (UrlLoaderOptions
            \<lparr> url_limit = imageInlineSizeLimit h,
              url_mimetype = None,
              url_name = media_name \<rparr>),
       rule_sideEffects = None \<rparr>"

definition rule_app_scripts :: "host \<Rightarrow> string \<Rightarrow> rule" where
  "rule_app_scripts h webpackEnv =
     \<lparr> rule_test = Some (Re script_extensions),
       rule_include = Some (Str (appSrc h)),
       rule_exclude = None,
       rule_loaders = Loader (RequireResolve ''babel-loader'')
         (BabelAppOptions
            \<lparr> app_customize = RequireResolve ''babel-preset-react-app/webpack-overrides'',
              app_preset = RequireResolve ''babel-preset-react-app'',
              app_runtime = (if hasJsxRuntime h then ''automatic'' else ''classic''),
              app_plugins = filter_Boolean
                [ Some (RequireResolve ''babel-plugin-named-asset-import''),
                  js_and (isEnvDevelopment webpackEnv \<and> shouldUseReactRefresh h)
                    (RequireResolve ''react-refresh/babel'') ],
              app_cacheDirectory = True,
              app_cacheCompression = False,
              app_compact = isEnvProduction webpackEnv \<rparr>),
       rule_sideEffects = None \<rparr>"

definition rule_dependency_scripts :: "host \<Rightarrow> rule" where
  "rule_dependency_scripts h =
     \<lparr> rule_test = Some (Re (EndsWith [''.js'', ''.mjs''])),
       rule_include = None,
       rule_exclude = Some (Re (Contains
         [ ''@babel/runtime'',
           ''@babel'' @ [CHR 0x5C] @ ''runtime'',
           ''@babel'' @ [CHR 0x5C, CHR 0x5C] @ ''runtime'' ])),
       rule_loaders = Loader (RequireResolve ''babel-loader'')
         (BabelDepOptions
            \<lparr> dep_babelrc = False,
              dep_configFile = False,
              dep_compact = False,
              dep_preset = RequireResolve ''babel-preset-react-app/dependencies'',
              dep_helpers = True,
              dep_cacheDirectory = True,
              dep_cacheCompression = False,
              dep_sourceMaps = shouldUseSourceMap h,
              dep_inputSourceMap = shouldUseSourceMap h \<rparr>),
       rule_sideEffects = None \<rparr>"

definition rule_css :: "host \<Rightarrow> string \<Rightarrow> rule" where
  "rule_css h webpackEnv =
     \<lparr> rule_test = Some (Re cssRegex),
       rule_include = None,
       rule_exclude = Some (Re cssModuleRegex),
       rule_loaders = Use (getStyleLoaders h webpackEnv
         \<lparr> importLoaders = 1,
           sourceMap = sourceMap_by_mode h webpackEnv,
           modules = None \<rparr> None),
       rule_sideEffects = Some True \<rparr>"

definition rule_css_modules :: "host \<Rightarrow> string \<Rightarrow> rule" where
  "rule_css_modules h webpackEnv =
     \<lparr> rule_test = Some (Re cssModuleRegex),
       rule_include = None,
       rule_exclude = None,
       rule_loaders = Use (getStyleLoaders h webpackEnv
         \<lparr> importLoaders = 1,
           sourceMap = sourceMap_by_mode h webpackEnv,
           modules = Some \<lparr> getLocalIdent = getCSSModuleLocalIdent \<rparr> \<rparr> None),
       rule_sideEffects = None \<rparr>"

definition rule_sass :: "host \<Rightarrow> string \<Rightarrow> rule" where
  "rule_sass h webpackEnv =
     \<lparr> rule_test = Some (Re sassRegex),
       rule_include = None,
       rule_exclude = Some (Re sassModuleRegex),
       rule_loaders = Use (getStyleLoaders h webpackEnv
         \<lparr> importLoaders = 3,
           sourceMap = sourceMap_by_mode h webpackEnv,
           modules = None \<rparr> (Some ''sass-loader'')),
       rule_sideEffects = Some True \<rparr>"

definition rule_sass_modules :: "host \<Rightarrow> string \<Rightarrow> rule" where
  "rule_sass_modules h webpackEnv =
     \<lparr> rule_test = Some (Re sassModuleRegex),
       rule_include = None,
       rule_exclude = None,
       rule_loaders = Use (getStyleLoaders h webpackEnv
         \<lparr> importLoaders = 3,
           sourceMap = sourceMap_by_mode h webpackEnv,
           modules = Some \<lparr> getLocalIdent = getCSSModuleLocalIdent \<rparr> \<rparr> (Some ''sass-loader'')),
       rule_sideEffects = None \<rparr>"

definition rule_file :: rule where
  "rule_file =
     \<lparr> rule_test = None,
       rule_include = None,
       rule_exclude = Some (Arr [Re script_extensions, Re (EndsWith [''.html'']),
                                Re (EndsWith [''.json''])]),
       rule_loaders = Loader (RequireResolve ''file-loader'') (FileLoaderOptions media_name),
       rule_sideEffects = None \<rparr>"

definition oneOf :: "host \<Rightarrow> string \<Rightarrow> rule list" where
  "oneOf h webpackEnv =
     [ rule_avif h,
       rule_images h,
       rule_app_scripts h webpackEnv,
       rule_dependency_scripts h,
       rule_css h webpackEnv,
       rule_css_modules h webpackEnv,
       rule_sass h webpackEnv,
       rule_sass_modules h webpackEnv,
       rule_file ]"

subsection \<open>Plugins\<close>

record fork_ts_checker_options =
  ts_typescript :: file_ref
  ts_async :: bool
  ts_checkSyntacticErrors :: bool
  ts_resolveModuleNameModule :: "string option"
  ts_resolveTypeReferenceDirectiveModule :: "string option"
  ts_tsconfig :: string
  ts_reportFiles :: "string list"
  ts_silent :: bool
  ts_formatter :: "string option"

record eslint_options =
  eslint_extensions :: "string list"
  eslint_formatter :: file_ref
  eslint_eslintPath :: file_ref
  eslint_context :: string
  eslint_cwd :: string
  eslint_resolvePluginsRelativeTo :: string
  eslint_extends :: "file_ref list"
  eslint_rules :: "(string \<times> string) list"

text \<open>One constructor for each plugin class the module instantiates, with the
  arguments that depend on the switches or on \<open>./paths\<close>; arguments that are the
  same in every call (the patterns of the locale and service-worker plugins, the
  manifest's \<open>generate\<close> callback) are not carried.\<close>

datatype plugin =
    HtmlWebpackPlugin bool string "string list option"
      \<comment> \<open>\<open>inject\<close>, \<open>template\<close>, the flags set in \<open>minify\<close> (absent in development)\<close>
  | InlineChunkHtmlPlugin "string list"
      \<comment> \<open>the source text of the patterns\<close>
  | InterpolateHtmlPlugin
  | ModuleNotFoundPlugin string
  | DefinePlugin
  | HotModuleReplacementPlugin
  | ReactRefreshWebpackPlugin file_ref file_ref bool
      \<comment> \<open>\<open>overlay.entry\<close>, \<open>overlay.module\<close>, \<open>overlay.sockIntegration\<close>\<close>
  | CaseSensitivePathsPlugin
  | WatchMissingNodeModulesPlugin string
  | MiniCssExtractPlugin string string
      \<comment> \<open>\<open>filename\<close>, \<open>chunkFilename\<close>\<close>
  | ManifestPlugin string string
      \<comment> \<open>\<open>fileName\<close>, \<open>publicPath\<close>\<close>
  | IgnorePlugin
  | InjectManifest string
      \<comment> \<open>\<open>swSrc\<close>\<close>
  | ForkTsCheckerWebpackPlugin fork_ts_checker_options
  | ESLintPlugin eslint_options

fun plugin_class :: "plugin \<Rightarrow> string" where
  "plugin_class (HtmlWebpackPlugin _ _ _) = ''HtmlWebpackPlugin''"
| "plugin_class (InlineChunkHtmlPlugin _) = ''InlineChunkHtmlPlugin''"
| "plugin_class InterpolateHtmlPlugin = ''InterpolateHtmlPlugin''"
| "plugin_class (ModuleNotFoundPlugin _) = ''ModuleNotFoundPlugin''"
| "plugin_class DefinePlugin = ''DefinePlugin''"
| "plugin_class HotModuleReplacementPlugin = ''HotModuleReplacementPlugin''"
| "plugin_class (ReactRefreshWebpackPlugin _ _ _) = ''ReactRefreshWebpackPlugin''"
| "plugin_class CaseSensitivePathsPlugin = ''CaseSensitivePathsPlugin''"
| "plugin_class (WatchMissingNodeModulesPlugin _) = ''WatchMissingNodeModulesPlugin''"
| "plugin_class (MiniCssExtractPlugin _ _) = ''MiniCssExtractPlugin''"
| "plugin_class (ManifestPlugin _ _) = ''ManifestPlugin''"
| "plugin_class IgnorePlugin = ''IgnorePlugin''"
| "plugin_class (InjectManifest _) = ''InjectManifest''"
| "plugin_class (ForkTsCheckerWebpackPlugin _) = ''ForkTsCheckerWebpackPlugin''"
| "plugin_class (ESLintPlugin _) = ''ESLintPlugin''"

definition html_minify_flags :: "string list" where
  "html_minify_flags =
     [ ''removeComments'', ''collapseWhitespace'', ''removeRedundantAttributes'',
       ''useShortDoctype'', ''removeEmptyAttributes'', ''removeStyleLinkTypeAttributes'',
       ''keepClosingSlash'', ''minifyJS'', ''minifyCSS'', ''minifyURLs'' ]"

definition pnpTs :: "host \<Rightarrow> string option" where
  "pnpTs h = (if versions_pnp h then Some (dirname h @ ''/pnpTs.js'') else None)"

definition plugins :: "host \<Rightarrow> string \<Rightarrow> plugin list" where
  "plugins h webpackEnv = filter_Boolean
     [ Some (HtmlWebpackPlugin True (appHtml h)
               (if isEnvProduction webpackEnv then Some html_minify_flags else None)),
       js_and (isEnvProduction webpackEnv \<and> shouldInlineRuntimeChunk h)
         (InlineChunkHtmlPlugin [''runtime-.+[.]js'']),
       Some InterpolateHtmlPlugin,
       Some (ModuleNotFoundPlugin (appPath h)),
       Some DefinePlugin,
       js_and (isEnvDevelopment webpackEnv) HotModuleReplacementPlugin,
       js_and (isEnvDevelopment webpackEnv \<and> shouldUseReactRefresh h)
         (ReactRefreshWebpackPlugin webpackDevClientEntry reactRefreshOverlayEntry False),
       js_and (isEnvDevelopment webpackEnv) CaseSensitivePathsPlugin,
       js_and (isEnvDevelopment webpackEnv) (WatchMissingNodeModulesPlugin (appNodeModules h)),
       js_and (isEnvProduction webpackEnv)
         (MiniCssExtractPlugin ''static/css/[name].[contenthash:8].css''
            ''static/css/[name].[contenthash:8].chunk.css''),
       Some (ManifestPlugin ''asset-manifest.json'' (publicUrlOrPath h)),
       Some IgnorePlugin,
       js_and (isEnvProduction webpackEnv \<and> swSrc_exists h)
         (InjectManifest (swSrc h)),
       js_and (useTypeScript h)
         (ForkTsCheckerWebpackPlugin
            \<lparr> ts_typescript = RequireResolve ''typescript'',
              ts_async = isEnvDevelopment webpackEnv,
              ts_checkSyntacticErrors = True,
              ts_resolveModuleNameModule = pnpTs h,
              ts_resolveTypeReferenceDirectiveModule = pnpTs h,
              ts_tsconfig = appTsConfig h,
              ts_reportFiles =
                [ ''../**/src/**/*.{ts,tsx}'', ''**/src/**/*.{ts,tsx}'',
                  ''!**/src/**/__tests__/**'', ''!**/src/**/?(*.)(spec|test).*'',
                  ''!**/src/setupProxy.*'', ''!**/src/setupTests.*'' ],
              ts_silent = True,
              ts_formatter =
                (if isEnvProduction webpackEnv then Some ''typescriptFormatter'' else None) \<rparr>),
       Some (ESLintPlugin
               \<lparr> eslint_extensions = [''js'', ''mjs'', ''jsx'', ''ts'', ''tsx''],
                 eslint_formatter = RequireResolve ''react-dev-utils/eslintFormatter'',
                 eslint_eslintPath = RequireResolve ''eslint'',
                 eslint_context = appSrc h,
                 eslint_cwd = appPath h,
                 eslint_resolvePluginsRelativeTo = dirname h,
                 eslint_extends = [RequireResolve ''eslint-config-react-app/base''],
                 eslint_rules =
                   (if \<not> hasJsxRuntime h then [(''react/react-in-jsx-scope'', ''error'')]
                    else []) \<rparr>) ]"

subsection \<open>The exported function\<close>

text \<open>
  The object returned for one \<open>webpackEnv\<close>. The fields \<open>output\<close>, \<open>resolve\<close>,
  \<open>resolveLoader\<close>, \<open>node\<close> and \<open>performance\<close> of the source hold no loader,
  stage or plugin and are left out. \<open>mode\<close> and \<open>devtool\<close> are \<open>None\<close> where the
  source's expression is \<open>false\<close>.
\<close>

record configuration =
  config_mode :: "string option"
  config_bail :: bool
  config_devtool :: "string option"
  config_entry :: entry_value
  config_optimization :: "optimization_setting list"
  config_oneOf :: "rule list"
  config_plugins :: "plugin list"

definition webpack_config :: "host \<Rightarrow> string \<Rightarrow> configuration" where
  "webpack_config h webpackEnv =
     \<lparr> config_mode =
         (if isEnvProduction webpackEnv then Some ''production''
          else js_and (isEnvDevelopment webpackEnv) ''development''),
       config_bail = isEnvProduction webpackEnv,
       config_devtool =
         (if isEnvProduction webpackEnv
          then (if shouldUseSourceMap h then Some ''source-map'' else None)
          else js_and (isEnvDevelopment webpackEnv) ''cheap-module-source-map''),
       config_entry = entry h webpackEnv,
       config_optimization = optimization h webpackEnv,
       config_oneOf = oneOf h webpackEnv,
       config_plugins = plugins h webpackEnv \<rparr>"

subsection \<open>A sample host\<close>

text \<open>A project with a TypeScript configuration and no service worker source, no
  environment variable set, served from \<open>/\<close>.\<close>

definition sample_host :: host where
  "sample_host =
     \<lparr> GENERATE_SOURCEMAP = None,
       INLINE_RUNTIME_CHUNK = None,
       IMAGE_INLINE_SIZE_LIMIT = None,
       DISABLE_NEW_JSX_TRANSFORM = None,
       argv = [''node'', ''scripts/build.js''],
       versions_pnp = False,
       FAST_REFRESH = True,
       jsx_runtime_resolves = True,
       appTsConfig_exists = True,
       swSrc_exists = False,
       publicUrlOrPath = ''/'',
       appSrc = ''/app/src'',
       appIndexJs = ''/app/src/index'',
       appBuild = ''/app/build'',
       appHtml = ''/app/public/index.html'',
       appPath = ''/app'',
       appNodeModules = ''/app/node_modules'',
       appTsConfig = ''/app/tsconfig.json'',
       swSrc = ''/app/src/service-worker'',
       dirname = ''/app/config'' \<rparr>"

section \<open>Auxiliary facts\<close>

lemmas mode_defs =
  isEnvDevelopment_def isEnvProduction_def sourceMap_by_mode_def js_and_def

lemmas rule_defs =
  rule_avif_def rule_images_def rule_app_scripts_def rule_dependency_scripts_def
  rule_css_def rule_css_modules_def rule_sass_def rule_sass_modules_def rule_file_def

lemmas parse_defs =
  parseInt_def isWhiteSpace_def digit_in_radix_def digit_value_def digits_value_def
  code_units_def round_double_def

text \<open>The classes of the plugin list, for any host and any \<open>webpackEnv\<close>: the fixed
  order of the array literal, with each guarded entry present exactly when its guard
  holds.\<close>

lemma plugin_classes:
  "map plugin_class (plugins h webpackEnv) =
    [''HtmlWebpackPlugin''] @
    (if webpackEnv = ''production'' \<and> shouldInlineRuntimeChunk h
     then [''InlineChunkHtmlPlugin''] else []) @
    [''InterpolateHtmlPlugin'', ''ModuleNotFoundPlugin'', ''DefinePlugin''] @
    (if webpackEnv = ''development'' then [''HotModuleReplacementPlugin''] else []) @
    (if webpackEnv = ''development'' \<and> shouldUseReactRefresh h
     then [''ReactRefreshWebpackPlugin''] else []) @
    (if webpackEnv = ''development''
     then [''CaseSensitivePathsPlugin'', ''WatchMissingNodeModulesPlugin''] else []) @
    (if webpackEnv = ''production'' then [''MiniCssExtractPlugin''] else []) @
    [''ManifestPlugin'', ''IgnorePlugin''] @
    (if webpackEnv = ''production'' \<and> swSrc_exists h then [''InjectManifest''] else []) @
    (if useTypeScript h then [''ForkTsCheckerWebpackPlugin''] else []) @
    [''ESLintPlugin'']"
  by (simp add: plugins_def mode_defs)

text \<open>Searching a list: what \<open>find\<close> returns, and when it returns the last element.\<close>

lemma find_cases:
  "case find P xs of
     None \<Rightarrow> \<forall>x\<in>set xs. \<not> P x
   | Some x \<Rightarrow> \<exists>i<length xs. x = xs ! i \<and> P x \<and> (\<forall>j<i. \<not> P (xs ! j))"
  by (auto simp: find_None_iff find_Some_iff split: option.splits)

lemma find_last_iff:
  assumes "x \<notin> set xs"
  shows "find P (xs @ [x]) = Some x \<longleftrightarrow> P x \<and> (\<forall>y\<in>set xs. \<not> P y)"
  using assms by (induction xs) auto

lemma rule_file_not_earlier: "rule_file \<notin> set (butlast (oneOf h webpackEnv))"
  by (simp add: oneOf_def rule_defs)

lemma oneOf_snoc: "oneOf h webpackEnv = butlast (oneOf h webpackEnv) @ [rule_file]"
  by (simp add: oneOf_def)

lemma rule_file_matches:
  "rule_matches rule_file p \<longleftrightarrow>
     \<not> (regexp_test script_extensions p \<or> suffix ''.html'' p \<or> suffix ''.json'' p)"
  by (simp add: rule_matches_def rule_file_def)

text \<open>A positive number has its top bit set, so rounding it to a double gives a
  positive value.\<close>

lemma bitlen_lower: "0 < n \<Longrightarrow> 2 ^ (bitlen n - 1) \<le> n"
proof (induction n rule: bitlen.induct)
  case (1 n)
  show ?case
  proof (cases "n div 2 = 0")
    case True
    then have "bitlen n = 1"
      using "1.prems" by (simp add: bitlen.simps [of n] bitlen.simps [of 0])
    then show ?thesis using "1.prems" by simp
  next
    case False
    then have pos: "0 < n div 2" by simp
    have ih: "2 ^ (bitlen (n div 2) - 1) \<le> n div 2"
      using "1.IH" "1.prems" pos by simp
    obtain k where k: "bitlen (n div 2) = Suc k"
      using pos by (simp add: bitlen.simps [of "n div 2"])
    have "bitlen n = Suc (Suc k)"
      using "1.prems" k by (simp add: bitlen.simps [of n])
    then have "(2::nat) ^ (bitlen n - 1) = 2 * 2 ^ (bitlen (n div 2) - 1)"
      using k by simp
    also have "\<dots> \<le> 2 * (n div 2)" using ih by simp
    also have "\<dots> \<le> n" by simp
    finally show ?thesis .
  qed
qed

lemma round_double_pos:
  assumes "0 < m" and "round_double m = Some v"
  shows "0 < v"
proof (cases "m < 2 ^ 53")
  case True
  then show ?thesis using assms by (simp add: round_double_def)
next
  case False
  define e where "e = bitlen m - 53"
  have "(2::nat) ^ e \<le> 2 ^ (bitlen m - 1)"
    unfolding e_def by (rule power_increasing) simp_all
  also have "\<dots> \<le> m" using bitlen_lower [OF assms(1)] .
  finally have "0 < m div 2 ^ e" by (simp add: div_greater_zero_iff)
  then show ?thesis
    using assms(2) False
    by (auto simp: round_double_def Let_def e_def split: if_splits)
qed

text \<open>Digits only add to the value read so far.\<close>

lemma foldl_digits_ge: "(a::nat) \<le> foldl (\<lambda>acc d. acc * 10 + d) a ds"
proof (induction ds arbitrary: a)
  case Nil
  show ?case by simp
next
  case (Cons d ds)
  have "a \<le> a * 10 + d" by simp
  also have "\<dots> \<le> foldl (\<lambda>acc d. acc * 10 + d) (a * 10 + d) ds" by (rule Cons.IH)
  finally show ?case by simp
qed

lemma digits_value_pos: "0 < d \<Longrightarrow> 0 < digits_value 10 (d # ds)"
  using foldl_digits_ge [of d ds] by (simp add: digits_value_def)

lemma parseInt_default: "parseInt (code_units ''10000'') = Num 10000"
  by (simp add: parse_defs)

text \<open>\<open>parseInt\<close> returns \<open>NaN\<close> exactly when no integer literal starts the
  string after white space and sign.\<close>

lemma zero_is_digit: "digit_in_radix 10 0x30 = Some 0"
  by (simp add: digit_in_radix_def digit_value_def)

lemma parseInt_NaN_iff:
  "parseInt s = NaN \<longleftrightarrow> \<not> starts_integer (snd (strip_sign (dropWhile isWhiteSpace s)))"
proof -
  obtain neg S where S: "strip_sign (dropWhile isWhiteSpace s) = (neg, S)"
    by (cases "strip_sign (dropWhile isWhiteSpace s)")
  define hex where "hex = (prefix [0x30, 0x78] S \<or> prefix [0x30, 0x58::nat] S)"
  define Z where "Z = leading_digits (if hex then 16 else 10) (if hex then drop 2 S else S)"
  have nan: "parseInt s = NaN \<longleftrightarrow> Z = []"
    by (simp add: parseInt_def S Let_def Z_def hex_def split: option.splits)
  have "Z = [] \<longleftrightarrow> \<not> starts_integer S"
  proof (cases S rule: starts_integer.cases)
    case 1
    then show ?thesis by (simp add: Z_def hex_def)
  next
    case (2 c)
    then show ?thesis by (simp add: Z_def hex_def split: option.splits)
  next
    case (3 c x cs)
    then show ?thesis
      using zero_is_digit
      by (auto simp: Z_def hex_def split: list.splits option.splits)
  qed
  then show ?thesis using nan S by simp
qed

lemma parseInt_negative:
  assumes "digit_in_radix 10 c = Some d" and "0 < d"
  shows "(\<exists>n<0. parseInt (0x2D # c # cs) = Num n) \<or> parseInt (0x2D # c # cs) = NegInfinity"
proof -
  have not_zero: "c \<noteq> 0x30"
    using assms by (auto simp: digit_in_radix_def digit_value_def split: if_splits)
  have not_ws: "\<not> isWhiteSpace 0x2D"
    by (simp add: isWhiteSpace_def)
  obtain ds where digits: "leading_digits 10 (c # cs) = d # ds"
    using assms(1) by simp
  define m where "m = digits_value 10 (d # ds)"
  have m: "0 < m" unfolding m_def using digits_value_pos [OF assms(2)] .
  have p: "parseInt (0x2D # c # cs) =
      (case round_double m of None \<Rightarrow> NegInfinity | Some v \<Rightarrow> Num (- int v))"
    using not_zero not_ws digits m
    by (simp add: parseInt_def m_def Let_def split: option.splits)
  show ?thesis
  proof (cases "round_double m")
    case None
    then show ?thesis using p by simp
  next
    case (Some v)
    then have "0 < v" using round_double_pos [OF m] by simp
    then show ?thesis using p Some by simp
  qed
qed

section \<open>Optimisation settings\<close>

text \<open>
  Claim C1, as stated, at a development call: the optimisation output is not empty.
  The object of a development call declares the same four settings as any other call;
  the chunk-splitting and runtime-chunk settings are written without a guard, and only
  the \<open>minimize\<close> switch depends on the mode.
\<close>

theorem optimization_development_not_empty:
  "config_optimization (webpack_config sample_host ''development'') \<noteq> []
   \<and> map setting_key (config_optimization (webpack_config sample_host ''development''))
       = [''minimize'', ''minimizer'', ''splitChunks'', ''runtimeChunk'']
   \<and> splitChunks \<lparr> chunks = ''all'', chunks_name = None \<rparr>
       \<in> set (config_optimization (webpack_config sample_host ''development''))
   \<and> runtimeChunk runtime_name
       \<in> set (config_optimization (webpack_config sample_host ''development''))"
  by (simp add: webpack_config_def optimization_def)

text \<open>
  Claim C1, amended: for every host and every \<open>webpackEnv\<close>, the optimisation object
  declares four settings in this order: the \<open>minimize\<close> switch, the \<open>minimizer\<close>
  list, \<open>splitChunks\<close> and \<open>runtimeChunk\<close>. The \<open>minimize\<close> switch is true exactly
  in production. The \<open>minimizer\<close> list is, in every mode, the script minifier (Terser)
  followed by the stylesheet minifier (OptimizeCSSAssets). Chunk splitting (all chunks,
  no forced name) and runtime-chunk extraction (named \<open>runtime-\<close> and the entry name)
  are declared in every mode, so no call has an empty optimisation output.
\<close>

theorem optimization_settings_by_mode:
  "config_optimization (webpack_config h webpackEnv)
     = [ minimize (webpackEnv = ''production''),
         minimizer
           [ TerserPlugin
               \<lparr> parse_ecma = 8,
                 compress_ecma = 5,
                 compress_warnings = False,
                 compress_comparisons = False,
                 compress_inline = 2,
                 mangle_safari10 = True,
                 keep_classnames = (webpackEnv = ''production'' \<and> ''--profile'' \<in> set (argv h)),
                 keep_fnames = (webpackEnv = ''production'' \<and> ''--profile'' \<in> set (argv h)),
                 output_ecma = 5,
                 output_comments = False,
                 output_ascii_only = True \<rparr>
               (shouldUseSourceMap h),
             OptimizeCSSAssetsPlugin ''postcss-safe-parser''
               (if shouldUseSourceMap h
                then Some \<lparr> map_inline = False, map_annotation = True \<rparr>
                else None)
               ''default'' False ],
         splitChunks \<lparr> chunks = ''all'', chunks_name = None \<rparr>,
         runtimeChunk runtime_name ]
   \<and> map setting_key (config_optimization (webpack_config h webpackEnv))
       = [''minimize'', ''minimizer'', ''splitChunks'', ''runtimeChunk'']
   \<and> (\<exists>ms. minimizer ms \<in> set (config_optimization (webpack_config h webpackEnv))
            \<and> map minimizer_class ms = [''TerserPlugin'', ''OptimizeCSSAssetsPlugin''])
   \<and> config_optimization (webpack_config h webpackEnv) \<noteq> []
   \<and> runtime_name ''main'' = ''runtime-main''"
  by (simp add: webpack_config_def optimization_def isEnvProduction_def
      isEnvProductionProfile_def runtime_name_def)

section \<open>Rule selection\<close>

text \<open>
  Claim C2, as stated, at an HTML file: no rule is selected. The path ends in none of
  the extensions of the first eight rules, and the fallback excludes it, so "exactly
  one rule for every file path" fails.
\<close>

theorem oneOf_selects_none_for_html:
  "oneOf_select (config_oneOf (webpack_config sample_host ''production''))
     ''/app/public/index.html'' = None"
  by (simp add: webpack_config_def oneOf_select_def oneOf_def rule_defs rule_matches_def
      sample_host_def cssRegex_def cssModuleRegex_def sassRegex_def sassModuleRegex_def
      script_extensions_def suffix_def)

text \<open>
  Claim C2, amended: for every host, \<open>webpackEnv\<close> and file path, the list has nine
  rules, the last is the fallback, the only one with no \<open>test\<close>; selection returns at
  most one rule, the first in order that applies, and none when no rule applies; the
  fallback is selected exactly when none of the eight earlier rules applies and the path
  is not excluded by it; and a path ending in a script extension (js, mjs, jsx, ts, tsx),
  in \<open>.html\<close> or in \<open>.json\<close> never selects the fallback.
\<close>

theorem oneOf_first_match_wins:
  "length (oneOf h webpackEnv) = 9
   \<and> last (oneOf h webpackEnv) = rule_file
   \<and> rule_test rule_file = None
   \<and> (\<forall>r\<in>set (butlast (oneOf h webpackEnv)). rule_test r \<noteq> None)
   \<and> (case oneOf_select (oneOf h webpackEnv) p of
         None \<Rightarrow> \<forall>r\<in>set (oneOf h webpackEnv). \<not> rule_matches r p
       | Some r \<Rightarrow>
           \<exists>i<9. r = oneOf h webpackEnv ! i \<and> rule_matches r p \<and>
                 (\<forall>j<i. \<not> rule_matches (oneOf h webpackEnv ! j) p))
   \<and> (oneOf_select (oneOf h webpackEnv) p = Some rule_file \<longleftrightarrow>
         (\<forall>r\<in>set (butlast (oneOf h webpackEnv)). \<not> rule_matches r p) \<and>
         rule_matches rule_file p)
   \<and> (regexp_test script_extensions p \<or> suffix ''.html'' p \<or> suffix ''.json'' p
         \<longrightarrow> oneOf_select (oneOf h webpackEnv) p \<noteq> Some rule_file)"
proof (intro conjI)
  show len: "length (oneOf h webpackEnv) = 9"
    by (simp add: oneOf_def)
  show "last (oneOf h webpackEnv) = rule_file"
    by (simp add: oneOf_def)
  show "rule_test rule_file = None"
    by (simp add: rule_file_def)
  show "\<forall>r\<in>set (butlast (oneOf h webpackEnv)). rule_test r \<noteq> None"
    by (simp add: oneOf_def rule_defs)
  show "case oneOf_select (oneOf h webpackEnv) p of
          None \<Rightarrow> \<forall>r\<in>set (oneOf h webpackEnv). \<not> rule_matches r p
        | Some r \<Rightarrow>
            \<exists>i<9. r = oneOf h webpackEnv ! i \<and> rule_matches r p \<and>
                  (\<forall>j<i. \<not> rule_matches (oneOf h webpackEnv ! j) p)"
    using find_cases [where P = "\<lambda>r. rule_matches r p" and xs = "oneOf h webpackEnv"] len
    by (simp add: oneOf_select_def split: option.splits)
  show fallback: "oneOf_select (oneOf h webpackEnv) p = Some rule_file \<longleftrightarrow>
      (\<forall>r\<in>set (butlast (oneOf h webpackEnv)). \<not> rule_matches r p) \<and> rule_matches rule_file p"
    unfolding oneOf_select_def
    using find_last_iff [OF rule_file_not_earlier, where P = "\<lambda>r. rule_matches r p"
        and h1 = h and webpackEnv1 = webpackEnv]
      oneOf_snoc [of h webpackEnv]
    by auto
  show "regexp_test script_extensions p \<or> suffix ''.html'' p \<or> suffix ''.json'' p
      \<longrightarrow> oneOf_select (oneOf h webpackEnv) p \<noteq> Some rule_file"
    using fallback rule_file_matches [of p] by blast
qed

text \<open>The amended C2 at two paths of the sample project: an SVG file, which only the
  fallback takes, and an HTML file, which the fallback excludes.\<close>

theorem oneOf_first_match_wins_witness:
  "oneOf_select (oneOf sample_host ''production'') ''/app/src/logo.svg'' = Some rule_file
   \<and> suffix ''.html'' ''/app/public/index.html''
   \<and> oneOf_select (oneOf sample_host ''production'') ''/app/public/index.html'' \<noteq> Some rule_file"
proof -
  have html: "suffix ''.html'' ''/app/public/index.html''"
    by (simp add: suffix_def)
  have svg: "(\<forall>r\<in>set (butlast (oneOf sample_host ''production'')).
                \<not> rule_matches r ''/app/src/logo.svg'')
             \<and> rule_matches rule_file ''/app/src/logo.svg''"
    by (simp add: oneOf_def rule_defs rule_matches_def sample_host_def cssRegex_def
        cssModuleRegex_def sassRegex_def sassModuleRegex_def script_extensions_def suffix_def)
  show ?thesis
    using html svg
      oneOf_first_match_wins [of sample_host "''production''" "''/app/src/logo.svg''"]
      oneOf_first_match_wins [of sample_host "''production''" "''/app/public/index.html''"]
    by blast
qed

section \<open>Style loader chains\<close>

text \<open>
  Claim C3, as stated, at the sample host: the development chain for
  \<open>{importLoaders: 1, sourceMap: false}\<close> with no preprocessor has three entries, not
  four. The extraction entry is a production-only entry and is filtered out.
\<close>

theorem style_chain_development_not_four:
  "length (getStyleLoaders sample_host ''development''
             \<lparr> importLoaders = 1, sourceMap = False, modules = None \<rparr> None) = 3
   \<and> length (getStyleLoaders sample_host ''development''
               \<lparr> importLoaders = 1, sourceMap = False, modules = None \<rparr> None) \<noteq> 4"
  by (simp add: getStyleLoaders_def mode_defs)

text \<open>
  Claim C3, amended: for every host, the development chain for
  \<open>{importLoaders: 1, sourceMap: false}\<close> with no preprocessor has exactly three
  entries: the style-injection loader first, then the CSS loader with the given options,
  and the vendor-prefix (postcss) loader last.
\<close>

theorem style_chain_development_plain:
  "getStyleLoaders h ''development''
     \<lparr> importLoaders = 1, sourceMap = False, modules = None \<rparr> None
   = [ UseString (RequireResolve ''style-loader''),
       UseObject (RequireResolve ''css-loader'')
         (CssOptions \<lparr> importLoaders = 1, sourceMap = False, modules = None \<rparr>),
       UseObject (RequireResolve ''postcss-loader'')
         (PostcssOptions ''postcss'' postcss_plugins True) ]
   \<and> length (getStyleLoaders h ''development''
               \<lparr> importLoaders = 1, sourceMap = False, modules = None \<rparr> None) = 3
   \<and> loader_of (hd (getStyleLoaders h ''development''
               \<lparr> importLoaders = 1, sourceMap = False, modules = None \<rparr> None))
       = RequireResolve ''style-loader''
   \<and> loader_of (last (getStyleLoaders h ''development''
               \<lparr> importLoaders = 1, sourceMap = False, modules = None \<rparr> None))
       = RequireResolve ''postcss-loader''"
  by (simp add: getStyleLoaders_def mode_defs)

text \<open>
  Claim C4, as stated, at the sample host: the production chain for
  \<open>{importLoaders: 3, sourceMap: true}\<close> with preprocessor \<open>sass\<close> has five entries,
  not six. The style-injection entry is a development-only entry and is filtered out.
\<close>

theorem style_chain_production_sass_not_six:
  "length (getStyleLoaders sample_host ''production''
             \<lparr> importLoaders = 3, sourceMap = True, modules = None \<rparr> (Some ''sass'')) = 5
   \<and> length (getStyleLoaders sample_host ''production''
               \<lparr> importLoaders = 3, sourceMap = True, modules = None \<rparr> (Some ''sass'')) \<noteq> 6"
  by (simp add: getStyleLoaders_def mode_defs)

text \<open>
  Claim C4, amended: for every host, the production chain for
  \<open>{importLoaders: 3, sourceMap: true}\<close> with preprocessor \<open>sass\<close> has exactly five
  entries: the CSS-extraction loader first, the CSS loader, the postcss loader, and as
  the last two the URL-rewriting loader followed by the \<open>sass\<close> loader.
\<close>

theorem style_chain_production_sass:
  "getStyleLoaders h ''production''
     \<lparr> importLoaders = 3, sourceMap = True, modules = None \<rparr> (Some ''sass'')
   = [ UseObject MiniCssExtractPlugin_loader
         (ExtractOptions (if prefix ''.'' (publicUrlOrPath h) then Some ''../../'' else None)),
       UseObject (RequireResolve ''css-loader'')
         (CssOptions \<lparr> importLoaders = 3, sourceMap = True, modules = None \<rparr>),
       UseObject (RequireResolve ''postcss-loader'')
         (PostcssOptions ''postcss'' postcss_plugins (shouldUseSourceMap h)),
       UseObject (RequireResolve ''resolve-url-loader'')
         (ResolveUrlOptions (shouldUseSourceMap h) (appSrc h)),
       UseObject (RequireResolve ''sass'') (PreProcessorOptions True) ]
   \<and> length (getStyleLoaders h ''production''
               \<lparr> importLoaders = 3, sourceMap = True, modules = None \<rparr> (Some ''sass'')) = 5
   \<and> loader_of (hd (getStyleLoaders h ''production''
               \<lparr> importLoaders = 3, sourceMap = True, modules = None \<rparr> (Some ''sass'')))
       = MiniCssExtractPlugin_loader"
  by (simp add: getStyleLoaders_def mode_defs)

text \<open>
  Claim C9, as stated, at a production call with \<open>GENERATE_SOURCEMAP=false\<close>: the
  URL-rewriting entry, fourth of five, has its source-map option off; only the
  preprocessor entry after it has it on.
\<close>

theorem url_rewriting_source_map_off:
  "map loader_of
     (getStyleLoaders (sample_host\<lparr>GENERATE_SOURCEMAP := Some ''false''\<rparr>) ''production''
        \<lparr> importLoaders = 3, sourceMap = False, modules = None \<rparr> (Some ''sass-loader''))
     = [ MiniCssExtractPlugin_loader, RequireResolve ''css-loader'',
         RequireResolve ''postcss-loader'', RequireResolve ''resolve-url-loader'',
         RequireResolve ''sass-loader'' ]
   \<and> map options_sourceMap
     (getStyleLoaders (sample_host\<lparr>GENERATE_SOURCEMAP := Some ''false''\<rparr>) ''production''
        \<lparr> importLoaders = 3, sourceMap = False, modules = None \<rparr> (Some ''sass-loader''))
     = [None, Some False, Some False, Some False, Some True]"
  by (simp add: getStyleLoaders_def mode_defs sample_host_def shouldUseSourceMap_def)

text \<open>
  Claim C9, amended: whenever a non-empty preprocessor name is given, the chain is the
  chain without preprocessor followed by a URL-rewriting entry rooted at the source tree
  and then the named preprocessor entry. The preprocessor entry has its source-map
  option on in every mode; the URL-rewriting entry has it on in development, equal to
  the source-map switch in production, and off for any other \<open>webpackEnv\<close>.
\<close>

theorem preprocessor_tail:
  "p \<noteq> [] \<Longrightarrow>
   getStyleLoaders h webpackEnv cssOptions (Some p)
   = getStyleLoaders h webpackEnv cssOptions None @
     [ UseObject (RequireResolve ''resolve-url-loader'')
         (ResolveUrlOptions
            (if webpackEnv = ''production'' then shouldUseSourceMap h
             else webpackEnv = ''development'')
            (appSrc h)),
       UseObject (RequireResolve p) (PreProcessorOptions True) ]"
  by (simp add: getStyleLoaders_def mode_defs Let_def)

theorem preprocessor_tail_witness:
  "''sass-loader'' \<noteq> []
   \<and> getStyleLoaders sample_host ''development''
       \<lparr> importLoaders = 3, sourceMap = True, modules = None \<rparr> (Some ''sass-loader'')
     = getStyleLoaders sample_host ''development''
         \<lparr> importLoaders = 3, sourceMap = True, modules = None \<rparr> None @
       [ UseObject (RequireResolve ''resolve-url-loader'') (ResolveUrlOptions True ''/app/src''),
         UseObject (RequireResolve ''sass-loader'') (PreProcessorOptions True) ]"
  using preprocessor_tail [of "''sass-loader''" sample_host "''development''"
      "\<lparr> importLoaders = 3, sourceMap = True, modules = None \<rparr>"]
  by (simp add: sample_host_def)

section \<open>The plugin list\<close>

text \<open>
  Claim C5, as stated, at the sample host (fast refresh on, TypeScript configured) in
  development: the last plugin is the lint plugin, which the array literal ends with
  unconditionally; the type-checking plugin is not last.
\<close>

theorem type_checking_not_last:
  "shouldUseReactRefresh sample_host \<and> useTypeScript sample_host
   \<and> last (map plugin_class (config_plugins (webpack_config sample_host ''development'')))
       = ''ESLintPlugin''
   \<and> last (map plugin_class (config_plugins (webpack_config sample_host ''development'')))
       \<noteq> ''ForkTsCheckerWebpackPlugin''"
  by (simp add: webpack_config_def plugin_classes shouldUseReactRefresh_def useTypeScript_def
      sample_host_def)

text \<open>
  Claim C5, amended: in development with fast refresh on and TypeScript configured,
  the plugin list is the twelve plugins below in this order. Hot module replacement
  (position 4) comes before fast refresh (position 5), and type checking is the last but
  one entry, directly before the lint plugin, which is last.
\<close>

theorem development_plugin_order:
  assumes "shouldUseReactRefresh h" and "useTypeScript h"
  shows "map plugin_class (config_plugins (webpack_config h ''development''))
         = [ ''HtmlWebpackPlugin'', ''InterpolateHtmlPlugin'', ''ModuleNotFoundPlugin'',
             ''DefinePlugin'', ''HotModuleReplacementPlugin'', ''ReactRefreshWebpackPlugin'',
             ''CaseSensitivePathsPlugin'', ''WatchMissingNodeModulesPlugin'',
             ''ManifestPlugin'', ''IgnorePlugin'', ''ForkTsCheckerWebpackPlugin'',
             ''ESLintPlugin'' ]"
  using assms by (simp add: webpack_config_def plugin_classes)

theorem development_plugin_order_witness:
  "shouldUseReactRefresh sample_host \<and> useTypeScript sample_host
   \<and> map plugin_class (config_plugins (webpack_config sample_host ''development''))
       = [ ''HtmlWebpackPlugin'', ''InterpolateHtmlPlugin'', ''ModuleNotFoundPlugin'',
           ''DefinePlugin'', ''HotModuleReplacementPlugin'', ''ReactRefreshWebpackPlugin'',
           ''CaseSensitivePathsPlugin'', ''WatchMissingNodeModulesPlugin'',
           ''ManifestPlugin'', ''IgnorePlugin'', ''ForkTsCheckerWebpackPlugin'',
           ''ESLintPlugin'' ]"
proof -
  have refresh: "shouldUseReactRefresh sample_host"
    by (simp add: shouldUseReactRefresh_def sample_host_def)
  have ts: "useTypeScript sample_host"
    by (simp add: useTypeScript_def sample_host_def)
  show ?thesis
    using refresh ts development_plugin_order [OF refresh ts] by simp
qed

text \<open>
  Claim C6: in production with profiling off, the plugin list holds none of the
  hot-module-replacement, fast-refresh, case-sensitivity and missing-module-watcher
  plugins, and it holds the CSS-extraction plugin and the asset-manifest plugin.
\<close>

theorem production_plugins:
  assumes "webpackEnv = ''production''" and "\<not> isEnvProductionProfile h webpackEnv"
  shows "''HotModuleReplacementPlugin''
           \<notin> set (map plugin_class (config_plugins (webpack_config h webpackEnv)))
       \<and> ''ReactRefreshWebpackPlugin''
           \<notin> set (map plugin_class (config_plugins (webpack_config h webpackEnv)))
       \<and> ''CaseSensitivePathsPlugin''
           \<notin> set (map plugin_class (config_plugins (webpack_config h webpackEnv)))
       \<and> ''WatchMissingNodeModulesPlugin''
           \<notin> set (map plugin_class (config_plugins (webpack_config h webpackEnv)))
       \<and> ''MiniCssExtractPlugin''
           \<in> set (map plugin_class (config_plugins (webpack_config h webpackEnv)))
       \<and> ''ManifestPlugin''
           \<in> set (map plugin_class (config_plugins (webpack_config h webpackEnv)))"
  using assms(1) by (simp add: webpack_config_def plugin_classes)

theorem production_plugins_witness:
  "\<not> isEnvProductionProfile sample_host ''production''
   \<and> ''HotModuleReplacementPlugin''
       \<notin> set (map plugin_class (config_plugins (webpack_config sample_host ''production'')))
   \<and> ''ReactRefreshWebpackPlugin''
       \<notin> set (map plugin_class (config_plugins (webpack_config sample_host ''production'')))
   \<and> ''CaseSensitivePathsPlugin''
       \<notin> set (map plugin_class (config_plugins (webpack_config sample_host ''production'')))
   \<and> ''WatchMissingNodeModulesPlugin''
       \<notin> set (map plugin_class (config_plugins (webpack_config sample_host ''production'')))
   \<and> ''MiniCssExtractPlugin''
       \<in> set (map plugin_class (config_plugins (webpack_config sample_host ''production'')))
   \<and> ''ManifestPlugin''
       \<in> set (map plugin_class (config_plugins (webpack_config sample_host ''production'')))"
proof -
  have no_profile: "\<not> isEnvProductionProfile sample_host ''production''"
    by (simp add: isEnvProductionProfile_def sample_host_def)
  show ?thesis
    using no_profile production_plugins [OF refl no_profile] by simp
qed

text \<open>
  Claim C8: for every host and every \<open>webpackEnv\<close>, the runtime-chunk-inlining plugin
  is in the plugin list only in production, and the fast-refresh plugin only in
  development.
\<close>

theorem mode_bound_plugins:
  "(''InlineChunkHtmlPlugin''
      \<in> set (map plugin_class (config_plugins (webpack_config h webpackEnv)))
    \<longrightarrow> webpackEnv = ''production'')
   \<and> (''ReactRefreshWebpackPlugin''
        \<in> set (map plugin_class (config_plugins (webpack_config h webpackEnv)))
      \<longrightarrow> webpackEnv = ''development'')"
  by (simp add: webpack_config_def plugin_classes)

text \<open>The sample host inlines the runtime chunk in production and uses fast refresh
  in development; an unknown \<open>webpackEnv\<close> gets neither plugin.\<close>

theorem mode_bound_plugins_witness:
  "''InlineChunkHtmlPlugin''
     \<in> set (map plugin_class (config_plugins (webpack_config sample_host ''production'')))
   \<and> ''ReactRefreshWebpackPlugin''
     \<in> set (map plugin_class (config_plugins (webpack_config sample_host ''development'')))
   \<and> ''InlineChunkHtmlPlugin''
     \<notin> set (map plugin_class (config_plugins (webpack_config sample_host ''test'')))
   \<and> ''ReactRefreshWebpackPlugin''
     \<notin> set (map plugin_class (config_plugins (webpack_config sample_host ''test'')))"
proof -
  have inline: "''InlineChunkHtmlPlugin''
      \<in> set (map plugin_class (config_plugins (webpack_config sample_host ''production'')))"
    by (simp add: webpack_config_def plugin_classes shouldInlineRuntimeChunk_def sample_host_def)
  have refresh: "''ReactRefreshWebpackPlugin''
      \<in> set (map plugin_class (config_plugins (webpack_config sample_host ''development'')))"
    by (simp add: webpack_config_def plugin_classes shouldUseReactRefresh_def sample_host_def)
  have other: "''test'' \<noteq> ''production'' \<and> ''test'' \<noteq> ''development''"
    by simp
  show ?thesis
    using inline refresh other
      mode_bound_plugins [of sample_host "''production''"]
      mode_bound_plugins [of sample_host "''development''"]
      mode_bound_plugins [of sample_host "''test''"]
    by blast
qed

section \<open>The inline size limit\<close>

text \<open>
  Claim C7, as stated, at two raw values: \<open>abc\<close> does not parse and the limit is
  \<open>NaN\<close>, not 10000; \<open>-5\<close> parses and the limit is negative. The module applies
  \<open>parseInt\<close> and nothing else, so there is no fallback and no sign check.
\<close>

theorem imageInlineSizeLimit_no_fallback:
  "imageInlineSizeLimit (sample_host\<lparr>IMAGE_INLINE_SIZE_LIMIT := Some (code_units ''abc'')\<rparr>)
     = NaN
   \<and> imageInlineSizeLimit (sample_host\<lparr>IMAGE_INLINE_SIZE_LIMIT := Some (code_units ''abc'')\<rparr>)
       \<noteq> Num 10000
   \<and> imageInlineSizeLimit (sample_host\<lparr>IMAGE_INLINE_SIZE_LIMIT := Some (code_units ''-5'')\<rparr>)
       = Num (- 5)"
  by (simp add: imageInlineSizeLimit_def sample_host_def parse_defs)

text \<open>
  Claim C7, amended: the limit is 10000 when the raw value is absent or empty. Every
  other raw value is handed to \<open>parseInt\<close> and the limit is its result, with no
  fallback and no sign or range check. The limit is \<open>NaN\<close> exactly when, after leading
  white space and an optional sign, the value does not start with a decimal digit, or
  starts with \<open>0x\<close>/\<open>0X\<close> not followed by a hexadecimal digit. The limit is negative, a
  negative integer or minus infinity, when the value is a minus sign followed by a
  digit from 1 to 9.
\<close>

theorem imageInlineSizeLimit_cases:
  "(IMAGE_INLINE_SIZE_LIMIT h = None \<or> IMAGE_INLINE_SIZE_LIMIT h = Some []
      \<longrightarrow> imageInlineSizeLimit h = Num 10000)
   \<and> (IMAGE_INLINE_SIZE_LIMIT h = Some s \<and> s \<noteq> []
      \<longrightarrow> imageInlineSizeLimit h = parseInt s
          \<and> (imageInlineSizeLimit h = NaN
               \<longleftrightarrow> \<not> starts_integer (snd (strip_sign (dropWhile isWhiteSpace s)))))
   \<and> (IMAGE_INLINE_SIZE_LIMIT h = Some (0x2D # c # cs) \<and> digit_in_radix 10 c = Some d
        \<and> 0 < d
      \<longrightarrow> (\<exists>n<0. imageInlineSizeLimit h = Num n) \<or> imageInlineSizeLimit h = NegInfinity)"
proof (intro conjI impI)
  assume "IMAGE_INLINE_SIZE_LIMIT h = None \<or> IMAGE_INLINE_SIZE_LIMIT h = Some []"
  then show "imageInlineSizeLimit h = Num 10000"
    using parseInt_default by (auto simp: imageInlineSizeLimit_def)
next
  assume present: "IMAGE_INLINE_SIZE_LIMIT h = Some s \<and> s \<noteq> []"
  then show parsed: "imageInlineSizeLimit h = parseInt s"
    by (simp add: imageInlineSizeLimit_def)
  show "imageInlineSizeLimit h = NaN
      \<longleftrightarrow> \<not> starts_integer (snd (strip_sign (dropWhile isWhiteSpace s)))"
    using parsed parseInt_NaN_iff [of s] by simp
next
  assume "IMAGE_INLINE_SIZE_LIMIT h = Some (0x2D # c # cs) \<and> digit_in_radix 10 c = Some d
    \<and> 0 < d"
  then show "(\<exists>n<0. imageInlineSizeLimit h = Num n) \<or> imageInlineSizeLimit h = NegInfinity"
    using parseInt_negative [of c d cs] by (simp add: imageInlineSizeLimit_def)
qed

text \<open>The amended C7 with the variable unset, set to \<open>abc\<close>, and set to \<open>-5\<close>.\<close>

theorem imageInlineSizeLimit_cases_witness:
  "imageInlineSizeLimit sample_host = Num 10000
   \<and> imageInlineSizeLimit (sample_host\<lparr>IMAGE_INLINE_SIZE_LIMIT := Some (code_units ''abc'')\<rparr>)
       = NaN
   \<and> ((\<exists>n<0. imageInlineSizeLimit
                 (sample_host\<lparr>IMAGE_INLINE_SIZE_LIMIT := Some (code_units ''-5'')\<rparr>) = Num n)
        \<or> imageInlineSizeLimit
             (sample_host\<lparr>IMAGE_INLINE_SIZE_LIMIT := Some (code_units ''-5'')\<rparr>) = NegInfinity)"
proof -
  let ?abc = "sample_host\<lparr>IMAGE_INLINE_SIZE_LIMIT := Some (code_units ''abc'')\<rparr>"
  let ?minus5 = "sample_host\<lparr>IMAGE_INLINE_SIZE_LIMIT := Some (code_units ''-5'')\<rparr>"
  have unset: "IMAGE_INLINE_SIZE_LIMIT sample_host = None"
    by (simp add: sample_host_def)
  have abc: "IMAGE_INLINE_SIZE_LIMIT ?abc = Some (code_units ''abc'')
      \<and> code_units ''abc'' \<noteq> []
      \<and> \<not> starts_integer (snd (strip_sign (dropWhile isWhiteSpace (code_units ''abc''))))"
    by (simp add: code_units_def isWhiteSpace_def digit_in_radix_def digit_value_def)
  have minus5: "IMAGE_INLINE_SIZE_LIMIT ?minus5 = Some (0x2D # 0x35 # [])
      \<and> digit_in_radix 10 0x35 = Some 5 \<and> (0::nat) < 5"
    by (simp add: code_units_def digit_in_radix_def digit_value_def)
  have "imageInlineSizeLimit sample_host = Num 10000"
    using unset
      imageInlineSizeLimit_cases [where h = sample_host and s = "[]" and c = 0 and cs = "[]"
        and d = 0]
    by blast
  moreover have "imageInlineSizeLimit ?abc = NaN"
    using abc
      imageInlineSizeLimit_cases [where h = ?abc and s = "code_units ''abc''" and c = 0
        and cs = "[]" and d = 0]
    by blast
  moreover have "(\<exists>n<0. imageInlineSizeLimit ?minus5 = Num n)
      \<or> imageInlineSizeLimit ?minus5 = NegInfinity"
    using minus5
      imageInlineSizeLimit_cases [where h = ?minus5 and s = "[]" and c = "0x35" and cs = "[]"
        and d = 5]
    by blast
  ultimately show ?thesis by blast
qed

section \<open>Entry points\<close>

text \<open>
  Claim C10: the entry field is the two-element array of the dev-server client and the
  application index exactly when the call is a development call with fast refresh off;
  in every other case it is the application index alone.
\<close>

theorem entry_by_mode:
  "(config_entry (webpack_config h webpackEnv)
      = EntryArray [webpackDevClientEntry, FsPath (appIndexJs h)])
     = (webpackEnv = ''development'' \<and> \<not> shouldUseReactRefresh h)
   \<and> (\<not> (webpackEnv = ''development'' \<and> \<not> shouldUseReactRefresh h)
      \<longrightarrow> config_entry (webpack_config h webpackEnv) = EntryString (FsPath (appIndexJs h)))"
  by (simp add: webpack_config_def entry_def mode_defs)

theorem entry_by_mode_witness:
  "config_entry (webpack_config (sample_host\<lparr>FAST_REFRESH := False\<rparr>) ''development'')
     = EntryArray [webpackDevClientEntry, FsPath ''/app/src/index'']
   \<and> config_entry (webpack_config sample_host ''development'')
       = EntryString (FsPath ''/app/src/index'')
   \<and> config_entry (webpack_config sample_host ''production'')
       = EntryString (FsPath ''/app/src/index'')"
  using entry_by_mode [of "sample_host\<lparr>FAST_REFRESH := False\<rparr>" "''development''"]
    entry_by_mode [of sample_host "''development''"]
    entry_by_mode [of sample_host "''production''"]
  by (simp add: shouldUseReactRefresh_def sample_host_def)

end
